theory Spec2Isabelle
  imports Main
begin

section \<open>Python values, exceptions and configuration objects\<close>

text \<open>
  The module \<^verbatim>\<open>connectchain/lcel/model.py\<close> resolves a model index to a language-model
  client. It reads a configuration object, the process environment and the process-wide
  session map, may call the token issuer and an SDK constructor, and may mutate the
  client through the proxy wrapper. Each Python exception is a value of \<open>py_error\<close>;
  a raise leaves the effects made so far in place, so every operation returns its
  outcome together with the world it leaves behind.
\<close>

datatype py_error =
    LCELModelException string
  | KeyError
  | TypeError
  | AttributeError
  | UnboundLocalError
  | ExternalError string

text \<open>
  Modelled from the spec: the class \<^verbatim>\<open>Config\<close> of \<^verbatim>\<open>connectchain.utils\<close> is not among the
  sources. The spec calls its access "dynamic/duck-typed ... attribute lookup that may be
  absent", and the callers in \<^verbatim>\<open>model.py\<close> guard such a lookup with
  \<^verbatim>\<open>except KeyError\<close>. A looked-up entry is therefore in one of three states: the key
  is absent (the lookup raises \<^verbatim>\<open>KeyError\<close>), the key is present with the value
  \<^verbatim>\<open>None\<close>, or the key is present with a value.
\<close>

datatype 'a attr = Absent | Null | Val 'a

text \<open>
  Modelled from the spec: the lookup of \<^verbatim>\<open>Config\<close> (attribute access and subscript; the
  class is not among the sources). It raises \<^verbatim>\<open>KeyError\<close> for an absent key and
  returns the value, possibly \<^verbatim>\<open>None\<close>, otherwise.
\<close>

definition py_getattr :: "'a attr \<Rightarrow> py_error + 'a option" where
  "py_getattr a = (case a of Absent \<Rightarrow> Inl KeyError | Null \<Rightarrow> Inr None | Val v \<Rightarrow> Inr (Some v))"

type_synonym proxy_config = string

record model_config =
  provider :: "string attr"
  type :: "string attr"
  model_name :: "string attr"
  api_base :: "string attr"
  api_version :: "string attr"
  engine :: "string attr"
  proxy :: "proxy_config attr"

record eas_config =
  token_refresh_interval :: "int attr"

text \<open>
  The global configuration. \<open>models\<close> is the mapping from index to model entry,
  \<open>cfg_proxy\<close> is the attribute \<^verbatim>\<open>config.proxy\<close> (named apart from the model-scoped
  \<open>proxy\<close>), \<open>eas\<close> holds the token refresh interval in seconds.
\<close>

record config =
  models :: "(string \<Rightarrow> model_config attr) attr"
  cfg_proxy :: "proxy_config attr"
  eas :: "eas_config attr"

section \<open>SDK clients and the world\<close>

datatype pyval = PNone | PStr string | PDict "(string \<times> pyval) list"

definition pystr :: "string option \<Rightarrow> pyval" where
  "pystr v = (case v of None \<Rightarrow> PNone | Some s \<Rightarrow> PStr s)"

datatype sdk_class = ChatOpenAI | AzureOpenAI

text \<open>
  A client object records the constructor call that built it (class and keyword
  arguments, in the order written) and the proxy its transport was wrapped with.
\<close>

record client =
  cls :: sdk_class
  kwargs :: "(string \<times> pyval) list"
  transport :: "proxy_config option"

text \<open>
  A session entry holds a Python reference (\<open>None\<close> or the address of a client object)
  and the time it was stored.
\<close>

record session_entry =
  llm :: "nat option"
  issued_at :: int

text \<open>
  The world: \<open>environ\<close> is \<^verbatim>\<open>os.environ\<close> (the token store), \<open>sessions\<close> the store of
  the process-wide \<^verbatim>\<open>SessionMap\<close>, \<open>heap\<close> the client objects constructed so far (a
  reference is an index into it), \<open>issued\<close> the indices the token issuer was invoked
  with, oldest first, and \<open>clock\<close> the current time in seconds.
\<close>

record world =
  environ :: "string \<rightharpoonup> string"
  sessions :: "string \<rightharpoonup> session_entry"
  heap :: "client list"
  issued :: "string list"
  clock :: int

text \<open>
  The collaborators imported by the module and absent from the sources, taken as
  parameters: the configuration loader \<^verbatim>\<open>Config.from_env\<close>, the fingerprint
  \<^verbatim>\<open>SessionMap.uuid_from_config\<close>, the token issuer \<^verbatim>\<open>get_token_from_env\<close>, and the
  validation done by the SDK constructors (\<open>None\<close> when the call is accepted).
\<close>

record externals =
  from_env :: "py_error + config"
  uuid_from_config :: "config \<Rightarrow> model_config \<Rightarrow> string"
  get_token_from_env :: "string \<Rightarrow> py_error + string"
  sdk_init :: "sdk_class \<Rightarrow> (string \<times> pyval) list \<Rightarrow> py_error option"



section \<open>Collaborators with effects\<close>

text \<open>Calling the token issuer is logged whether it succeeds or raises.\<close>

definition issue_token :: "externals \<Rightarrow> string \<Rightarrow> world \<Rightarrow> (py_error + string) \<times> world" where
  "issue_token ext index w =
     (get_token_from_env ext index, w\<lparr>issued := issued w @ [index]\<rparr>)"

text \<open>A constructor call that is accepted allocates a new client object.\<close>

definition sdk_new ::
  "externals \<Rightarrow> sdk_class \<Rightarrow> (string \<times> pyval) list \<Rightarrow> world \<Rightarrow> (py_error + nat) \<times> world" where
  "sdk_new ext c kw w =
     (case sdk_init ext c kw of
        Some e \<Rightarrow> (Inl e, w)
      | None \<Rightarrow> (Inr (length (heap w)),
                 w\<lparr>heap := heap w @ [\<lparr>cls = c, kwargs = kw, transport = None\<rparr>]\<rparr>))"

text \<open>
  Modelled from the spec: \<^verbatim>\<open>SessionMap.is_expired\<close> (\<^verbatim>\<open>connectchain.utils\<close>; the class
  is not among the sources). Section 4.2: \<^verbatim>\<open>isExpired\<close> is true if no entry exists or
  if \<^verbatim>\<open>now - issuedAt >= refreshInterval\<close>; an interval that is not a concrete
  duration never expires. The interval is the one the map was constructed with.
\<close>

definition is_expired :: "int option \<Rightarrow> world \<Rightarrow> string \<Rightarrow> bool" where
  "is_expired interval w key =
     (case sessions w key of
        None \<Rightarrow> True
      | Some e \<Rightarrow> (case interval of None \<Rightarrow> False | Some d \<Rightarrow> d \<le> clock w - issued_at e))"

text \<open>
  Modelled from the spec: \<^verbatim>\<open>SessionMap.get_llm\<close> (not among the sources), the \<^verbatim>\<open>get\<close>
  of section 4.2: the cached handle, or the sentinel \<^verbatim>\<open>None\<close> when there is no entry.
\<close>

definition get_llm :: "world \<Rightarrow> string \<Rightarrow> nat option" where
  "get_llm w key = (case sessions w key of None \<Rightarrow> None | Some e \<Rightarrow> llm e)"

text \<open>
  Modelled from the spec: \<^verbatim>\<open>SessionMap.new_session\<close> (not among the sources), the
  \<^verbatim>\<open>put\<close> of section 4.2: stores or replaces the entry, issued now.
\<close>

definition new_session :: "string \<Rightarrow> nat option \<Rightarrow> world \<Rightarrow> world" where
  "new_session key h w =
     w\<lparr>sessions := (sessions w)(key \<mapsto> \<lparr>llm = h, issued_at = clock w\<rparr>)\<rparr>"

text \<open>
  Modelled from the spec: \<^verbatim>\<open>wrap_llm_with_proxy\<close> (\<^verbatim>\<open>connectchain.utils.llm_proxy_wrapper\<close>)
  is not among the sources. Section 4.3: it mutates the handle's transport so that calls
  route through the proxy. The caller discards its return value.
\<close>

definition wrap_llm_with_proxy :: "nat \<Rightarrow> proxy_config \<Rightarrow> world \<Rightarrow> world" where
  "wrap_llm_with_proxy r p w =
     w\<lparr>heap := (heap w)[r := (heap w ! r)\<lparr>transport := Some p\<rparr>]\<rparr>"

section \<open>The module\<close>

text \<open>
  The keyword arguments of the two constructor calls, in the order written.
  \<^verbatim>\<open>model_kwargs\<close> is the dictionary of provider-specific extra parameters.
\<close>

definition model_kwargs :: "string option \<Rightarrow> string option \<Rightarrow> pyval" where
  "model_kwargs en av =
     PDict [(''engine'', pystr en), (''api_version'', pystr av), (''api_type'', PStr ''azure'')]"

definition chat_kwargs ::
  "string \<Rightarrow> string option \<Rightarrow> string option \<Rightarrow> string option \<Rightarrow> string option
     \<Rightarrow> (string \<times> pyval) list" where
  "chat_kwargs auth_token mn ab av en =
     [(''model'', pystr mn),
      (''openai_api_key'', PStr auth_token),
      (''openai_api_base'', pystr ab),
      (''model_kwargs'', model_kwargs en av)]"

definition azure_kwargs ::
  "string \<Rightarrow> string option \<Rightarrow> string option \<Rightarrow> string option \<Rightarrow> string option
     \<Rightarrow> (string \<times> pyval) list" where
  "azure_kwargs auth_token mn ab av en =
     [(''model'', pystr mn),
      (''openai_api_key'', PStr auth_token),
      (''openai_api_base'', pystr ab),
      (''openai_api_version'', pystr av),
      (''model_kwargs'', model_kwargs en av)]"

text \<open>
  \<^verbatim>\<open>_get_chat_model_\<close>: the arguments are evaluated left to right (model name, API base,
  engine, API version), then \<^verbatim>\<open>ChatOpenAI\<close> is called.
\<close>

definition get_chat_model ::
  "externals \<Rightarrow> string \<Rightarrow> model_config \<Rightarrow> world \<Rightarrow> (py_error + nat) \<times> world" where
  "get_chat_model ext auth_token mc w =
     (case py_getattr (model_name mc) of Inl e \<Rightarrow> (Inl e, w) | Inr mn \<Rightarrow>
     (case py_getattr (api_base mc) of Inl e \<Rightarrow> (Inl e, w) | Inr ab \<Rightarrow>
     (case py_getattr (engine mc) of Inl e \<Rightarrow> (Inl e, w) | Inr en \<Rightarrow>
     (case py_getattr (api_version mc) of Inl e \<Rightarrow> (Inl e, w) | Inr av \<Rightarrow>
        sdk_new ext ChatOpenAI (chat_kwargs auth_token mn ab av en) w))))"

text \<open>
  \<^verbatim>\<open>_get_azure_model_\<close>: model name, API base, API version, engine, then
  \<^verbatim>\<open>AzureOpenAI\<close> is called.
\<close>

definition get_azure_model ::
  "externals \<Rightarrow> string \<Rightarrow> model_config \<Rightarrow> world \<Rightarrow> (py_error + nat) \<times> world" where
  "get_azure_model ext auth_token mc w =
     (case py_getattr (model_name mc) of Inl e \<Rightarrow> (Inl e, w) | Inr mn \<Rightarrow>
     (case py_getattr (api_base mc) of Inl e \<Rightarrow> (Inl e, w) | Inr ab \<Rightarrow>
     (case py_getattr (api_version mc) of Inl e \<Rightarrow> (Inl e, w) | Inr av \<Rightarrow>
     (case py_getattr (engine mc) of Inl e \<Rightarrow> (Inl e, w) | Inr en \<Rightarrow>
        sdk_new ext AzureOpenAI (azure_kwargs auth_token mn ab av en) w))))"

text \<open>
  \<^verbatim>\<open>config.eas.token_refresh_interval\<close>: an absent key raises \<^verbatim>\<open>KeyError\<close>, an attribute
  of \<^verbatim>\<open>None\<close> raises \<^verbatim>\<open>AttributeError\<close>.
\<close>

definition refresh_interval :: "config \<Rightarrow> py_error + int option" where
  "refresh_interval cfg =
     (case py_getattr (eas cfg) of
        Inl e \<Rightarrow> Inl e
      | Inr None \<Rightarrow> Inl AttributeError
      | Inr (Some e) \<Rightarrow> py_getattr (token_refresh_interval e))"

text \<open>\<^verbatim>\<open>_get_openai_model_\<close>: the result is a Python reference, \<open>None\<close> or a client.\<close>

definition get_openai_model ::
  "externals \<Rightarrow> string \<Rightarrow> config \<Rightarrow> model_config \<Rightarrow> world \<Rightarrow> (py_error + nat option) \<times> world" where
  "get_openai_model ext index cfg mc w =
     (let model_session_key = uuid_from_config ext cfg mc;
          auth_token = environ w model_session_key
      in (case refresh_interval cfg of
            Inl e \<Rightarrow> (Inl e, w)
          | Inr interval \<Rightarrow>
              if auth_token = None \<or> is_expired interval w model_session_key then
                (case issue_token ext index w of
                   (Inl e, w1) \<Rightarrow> (Inl e, w1)
                 | (Inr tok, w1) \<Rightarrow>
                     (let w2 = w1\<lparr>environ := (environ w1)(model_session_key \<mapsto> tok)\<rparr>
                      in (case py_getattr (type mc) of
                            Inl e \<Rightarrow> (Inl e, w2)
                          | Inr ty \<Rightarrow>
                              (case (if ty = Some ''chat'' then get_chat_model ext tok mc w2
                                     else get_azure_model ext tok mc w2) of
                                 (Inl e, w3) \<Rightarrow> (Inl e, w3)
                               | (Inr r, w3) \<Rightarrow>
                                   (Inr (Some r), new_session model_session_key (Some r) w3)))))
              else (Inr (get_llm w model_session_key), w)))"

text \<open>
  Lines 51 to 61 of \<^verbatim>\<open>_get_model_\<close>: the local variable \<^verbatim>\<open>proxy_config\<close>. It is
  assigned only if \<^verbatim>\<open>model_config.proxy\<close> does not raise; reading it unassigned raises
  \<^verbatim>\<open>UnboundLocalError\<close>. The global setting is read only when the variable holds
  \<^verbatim>\<open>None\<close>, and a \<^verbatim>\<open>KeyError\<close> there leaves it \<^verbatim>\<open>None\<close>.
\<close>

definition proxy_config_of :: "model_config \<Rightarrow> config \<Rightarrow> py_error + proxy_config option" where
  "proxy_config_of mc cfg =
     (case py_getattr (proxy mc) of
        Inl e \<Rightarrow> (if e = KeyError then Inl UnboundLocalError else Inl e)
      | Inr (Some p) \<Rightarrow> Inr (Some p)
      | Inr None \<Rightarrow>
          (case py_getattr (cfg_proxy cfg) of
             Inl e \<Rightarrow> (if e = KeyError then Inr None else Inl e)
           | Inr g \<Rightarrow> Inr g))"

definition not_defined_message :: "string \<Rightarrow> string" where
  "not_defined_message index =
     ''Model config at index '' @ [CHR 0x22] @ index @ [CHR 0x22] @ '' is not defined''"

text \<open>\<^verbatim>\<open>_get_model_\<close>\<close>

definition get_model :: "externals \<Rightarrow> string \<Rightarrow> world \<Rightarrow> (py_error + nat) \<times> world" where
  "get_model ext index w =
     (case from_env ext of Inl e \<Rightarrow> (Inl e, w) | Inr cfg \<Rightarrow>
     (case py_getattr (models cfg) of
        Inl e \<Rightarrow> (if e = KeyError
                  then (Inl (LCELModelException ''No models defined in config''), w)
                  else (Inl e, w))
      | Inr None \<Rightarrow> (Inl TypeError, w)
      | Inr (Some ms) \<Rightarrow>
     (case py_getattr (ms index) of
        Inl e \<Rightarrow> (Inl e, w)
      | Inr None \<Rightarrow> (Inl (LCELModelException (not_defined_message index)), w)
      | Inr (Some mc) \<Rightarrow>
     (case py_getattr (provider mc) of Inl e \<Rightarrow> (Inl e, w) | Inr pv \<Rightarrow>
     (case (if pv = Some ''openai'' then get_openai_model ext index cfg mc w
            else (Inr None, w)) of
        (Inl e, w1) \<Rightarrow> (Inl e, w1)
      | (Inr None, w1) \<Rightarrow> (Inl (LCELModelException ''Not implemented''), w1)
      | (Inr (Some model_instance), w1) \<Rightarrow>
     (case proxy_config_of mc cfg of
        Inl e \<Rightarrow> (Inl e, w1)
      | Inr None \<Rightarrow> (Inr model_instance, w1)
      | Inr (Some p) \<Rightarrow>
          (Inr model_instance, wrap_llm_with_proxy model_instance p w1)))))))"

text \<open>\<^verbatim>\<open>model\<close>, the public entry point.\<close>

definition model :: "externals \<Rightarrow> string \<Rightarrow> world \<Rightarrow> (py_error + nat) \<times> world" where
  "model ext index w = get_model ext index w"

section \<open>Example configurations and worlds\<close>

text \<open>
  The configuration of the spec's scenario: index \<open>1\<close> is an openai chat model, the
  refresh interval is 3600 seconds and no proxy is configured. Index \<open>3\<close> is present
  with a null entry; every other index is absent.
\<close>

definition chat_model :: model_config where
  "chat_model =
     \<lparr>provider = Val ''openai'', type = Val ''chat'', model_name = Val ''gpt-35-turbo'',
      api_base = Val ''https://llm.example.com'', api_version = Val ''2023-05-15'',
      engine = Val ''gpt-35'', proxy = Null\<rparr>"

definition example_config :: config where
  "example_config =
     \<lparr>models = Val (\<lambda>i. if i = ''1'' then Val chat_model
                        else if i = ''3'' then Null else Absent),
      cfg_proxy = Absent,
      eas = Val \<lparr>token_refresh_interval = Val 3600\<rparr>\<rparr>"

definition example_ext :: externals where
  "example_ext =
     \<lparr>from_env = Inr example_config,
      uuid_from_config = (\<lambda>c m. ''session-key''),
      get_token_from_env = (\<lambda>i. Inr (''token-'' @ i)),
      sdk_init = (\<lambda>c kw. None)\<rparr>"

definition empty_world :: world where
  "empty_world =
     \<lparr>environ = Map.empty, sessions = Map.empty, heap = [], issued = [], clock = 0\<rparr>"

text \<open>The same model without a \<^verbatim>\<open>proxy\<close> key, in a configuration without one either.\<close>

definition no_proxy_ext :: externals where
  "no_proxy_ext =
     example_ext\<lparr>from_env :=
       Inr (example_config\<lparr>models := Val (\<lambda>i. Val (chat_model\<lparr>proxy := Absent\<rparr>))\<rparr>)\<rparr>"

text \<open>A world whose session entry for the key holds the reference \<^verbatim>\<open>None\<close>.\<close>

definition null_handle_world :: world where
  "null_handle_world =
     \<lparr>environ = [''session-key'' \<mapsto> ''token-1''],
      sessions = [''session-key'' \<mapsto> \<lparr>llm = None, issued_at = 0\<rparr>],
      heap = [], issued = [''1''], clock = 10\<rparr>"

text \<open>
  The world left by a first resolution of index \<open>1\<close> at time 0, ten seconds later:
  the token is in the environment, the chat client is on the heap and in the session map.
\<close>

definition cached_world :: world where
  "cached_world =
     \<lparr>environ = [''session-key'' \<mapsto> ''token-1''],
      sessions = [''session-key'' \<mapsto> \<lparr>llm = Some 0, issued_at = 0\<rparr>],
      heap = [\<lparr>cls = ChatOpenAI,
               kwargs = chat_kwargs ''token-1'' (Some ''gpt-35-turbo'')
                          (Some ''https://llm.example.com'') (Some ''2023-05-15'') (Some ''gpt-35''),
               transport = None\<rparr>],
      issued = [''1''], clock = 10\<rparr>"

text \<open>The same model with a type other than \<^verbatim>\<open>"chat"\<close>.\<close>

definition azure_model :: model_config where
  "azure_model = chat_model\<lparr>type := Val ''completion''\<rparr>"

text \<open>
  A configuration that declares a proxy at both scopes, a different one at each.
\<close>

definition proxied_model :: model_config where
  "proxied_model = chat_model\<lparr>proxy := Val ''http://model-proxy:8080''\<rparr>"

definition proxied_config :: config where
  "proxied_config =
     example_config\<lparr>models := Val (\<lambda>i. Val proxied_model),
                    cfg_proxy := Val ''http://global-proxy:3128''\<rparr>"

definition proxied_ext :: externals where
  "proxied_ext = example_ext\<lparr>from_env := Inr proxied_config\<rparr>"

text \<open>Configurations whose \<^verbatim>\<open>models\<close> section is an empty mapping, and null.\<close>

definition empty_models_ext :: externals where
  "empty_models_ext =
     example_ext\<lparr>from_env := Inr (example_config\<lparr>models := Val (\<lambda>i. Absent)\<rparr>)\<rparr>"

definition null_models_ext :: externals where
  "null_models_ext = example_ext\<lparr>from_env := Inr (example_config\<lparr>models := Null\<rparr>)\<rparr>"





section \<open>Basic facts\<close>

lemmas model_defs = model_def get_model_def get_openai_model_def get_chat_model_def
  get_azure_model_def refresh_interval_def proxy_config_of_def py_getattr_def issue_token_def
  sdk_new_def is_expired_def get_llm_def new_session_def wrap_llm_with_proxy_def pystr_def
  Let_def chat_kwargs_def azure_kwargs_def model_kwargs_def

lemmas example_defs = chat_model_def example_config_def example_ext_def empty_world_def

lemma py_getattr_simps [simp]:
  "py_getattr Absent = Inl KeyError"
  "py_getattr Null = Inr None"
  "py_getattr (Val v) = Inr (Some v)"
  by (simp_all add: py_getattr_def)

text \<open>Once the model entry is found and its provider is openai, the rest of the
  resolution is the dispatch, the null check and the proxy chain.\<close>

lemma model_dispatch:
  assumes "from_env ext = Inr cfg" and "models cfg = Val ms" and "ms index = Val mc"
    and "provider mc = Val ''openai''"
  shows "model ext index w =
     (case get_openai_model ext index cfg mc w of
        (Inl e, w1) \<Rightarrow> (Inl e, w1)
      | (Inr None, w1) \<Rightarrow> (Inl (LCELModelException ''Not implemented''), w1)
      | (Inr (Some r), w1) \<Rightarrow>
          (case proxy_config_of mc cfg of
             Inl e \<Rightarrow> (Inl e, w1)
           | Inr None \<Rightarrow> (Inr r, w1)
           | Inr (Some p) \<Rightarrow> (Inr r, wrap_llm_with_proxy r p w1)))"
  using assms by (simp add: model_def get_model_def)

lemma cache_hit:
  assumes "refresh_interval cfg = Inr iv"
    and "environ w (uuid_from_config ext cfg mc) = Some tok"
    and "\<not> is_expired iv w (uuid_from_config ext cfg mc)"
  shows "get_openai_model ext index cfg mc w =
           (Inr (get_llm w (uuid_from_config ext cfg mc)), w)"
  using assms by (simp add: get_openai_model_def Let_def)

text \<open>The proxy wrapper touches the heap only, and no object is added or removed.\<close>

lemma wrap_frame [simp]:
  "environ (wrap_llm_with_proxy r p w) = environ w"
  "sessions (wrap_llm_with_proxy r p w) = sessions w"
  "issued (wrap_llm_with_proxy r p w) = issued w"
  "clock (wrap_llm_with_proxy r p w) = clock w"
  "length (heap (wrap_llm_with_proxy r p w)) = length (heap w)"
  by (simp_all add: wrap_llm_with_proxy_def)

text \<open>What the resolution leaves in the stores is what the openai builder left there.\<close>

lemma model_frame:
  assumes "from_env ext = Inr cfg" and "models cfg = Val ms" and "ms index = Val mc"
    and "provider mc = Val ''openai''"
  shows "environ (snd (model ext index w)) = environ (snd (get_openai_model ext index cfg mc w))"
    and "sessions (snd (model ext index w)) = sessions (snd (get_openai_model ext index cfg mc w))"
    and "issued (snd (model ext index w)) = issued (snd (get_openai_model ext index cfg mc w))"
    and "length (heap (snd (model ext index w))) =
           length (heap (snd (get_openai_model ext index cfg mc w)))"
  by (simp_all add: model_dispatch [OF assms] split: prod.splits sum.splits option.splits)

lemma model_of_handle:
  assumes "from_env ext = Inr cfg" and "models cfg = Val ms" and "ms index = Val mc"
    and "provider mc = Val ''openai''"
    and "get_openai_model ext index cfg mc w = (Inr (Some h), w1)"
    and "proxy_config_of mc cfg = Inr pc"
  shows "model ext index w =
           (Inr h, (case pc of None \<Rightarrow> w1 | Some p \<Rightarrow> wrap_llm_with_proxy h p w1))"
  using assms(5,6) by (simp add: model_dispatch [OF assms(1-4)] split: option.splits)

section \<open>Errors of the resolution\<close>

text \<open>
  When the loaded configuration has no \<^verbatim>\<open>models\<close> section, the lookup
  \<^verbatim>\<open>config.models\<close> raises \<^verbatim>\<open>KeyError\<close> and the resolution fails with
  \<^verbatim>\<open>LCELModelException("No models defined in config")\<close>, the spec's ConfigError. The
  world is the one it started in: no token was issued, no client built, no store written.
\<close>

theorem no_models_config_error:
  assumes "from_env ext = Inr cfg" and "models cfg = Absent"
  shows "model ext index w = (Inl (LCELModelException ''No models defined in config''), w)"
  using assms by (simp add: model_def get_model_def)

theorem no_models_config_error_witness:
  "model (example_ext\<lparr>from_env := Inr (example_config\<lparr>models := Absent\<rparr>)\<rparr>) ''1'' empty_world
     = (Inl (LCELModelException ''No models defined in config''), empty_world)"
  using no_models_config_error
    [of "example_ext\<lparr>from_env := Inr (example_config\<lparr>models := Absent\<rparr>)\<rparr>"
        "example_config\<lparr>models := Absent\<rparr>" "''1''" empty_world]
  by (simp add: example_ext_def)

text \<open>
  Claim C7. The claim asks for the ConfigError whenever no models are defined at all.
  The guard at lines 39 to 42 catches one such configuration only, the one without a
  \<^verbatim>\<open>models\<close> key. When the section is an empty mapping, \<^verbatim>\<open>config.models\<close> succeeds and
  the subscript \<^verbatim>\<open>models[index]\<close> raises \<^verbatim>\<open>KeyError\<close>; when the section is null, the
  subscript of \<^verbatim>\<open>None\<close> raises \<^verbatim>\<open>TypeError\<close>. Neither is the exception with the
  message "No models defined in config".
\<close>

theorem no_models_defined_other_errors:
  "model empty_models_ext ''1'' empty_world = (Inl KeyError, empty_world) \<and>
   model null_models_ext ''1'' empty_world = (Inl TypeError, empty_world)"
  by (simp add: model_def get_model_def empty_models_ext_def null_models_ext_def
      example_ext_def example_config_def)

text \<open>
  An index that maps to a null entry fails with the exception whose message names the
  index, the spec's ModelNotFoundError. An index that is absent from the mapping does not
  reach that check: the subscript \<^verbatim>\<open>models[index]\<close> raises \<^verbatim>\<open>KeyError\<close>, which nothing
  catches.
\<close>

lemma null_entry_not_defined:
  assumes "from_env ext = Inr cfg" and "models cfg = Val ms" and "ms index = Null"
  shows "model ext index w = (Inl (LCELModelException (not_defined_message index)), w)"
  using assms by (simp add: model_def get_model_def)

lemma absent_index_KeyError:
  assumes "from_env ext = Inr cfg" and "models cfg = Val ms" and "ms index = Absent"
  shows "model ext index w = (Inl KeyError, w)"
  using assms by (simp add: model_def get_model_def)

text \<open>
  Claim C1. The claim asks for the model-not-found error at every absent index. In the
  example configuration index \<open>2\<close> is absent, and the resolution raises \<^verbatim>\<open>KeyError\<close>,
  not \<^verbatim>\<open>LCELModelException\<close>.
\<close>

theorem absent_index_raises_KeyError:
  "model example_ext ''2'' empty_world = (Inl KeyError, empty_world)"
  by (simp add: model_def get_model_def example_ext_def example_config_def)

text \<open>
  Claim C2. The claim asks that a configuration with no proxy setting at either scope
  resolves to the unwrapped handle. With the \<^verbatim>\<open>proxy\<close> key absent from the model entry
  the local variable \<^verbatim>\<open>proxy_config\<close> is never assigned, and the test
  \<^verbatim>\<open>proxy_config is None\<close> raises \<^verbatim>\<open>UnboundLocalError\<close>, after the token was issued
  and the client built and cached.
\<close>

theorem absent_proxy_raises_UnboundLocalError:
  "fst (model no_proxy_ext ''1'' empty_world) = Inl UnboundLocalError \<and>
   issued (snd (model no_proxy_ext ''1'' empty_world)) = [''1''] \<and>
   length (heap (snd (model no_proxy_ext ''1'' empty_world))) = 1"
  by (simp add: model_defs example_defs no_proxy_ext_def)

text \<open>
  Claim C6. A model entry whose provider value is not \<^verbatim>\<open>"openai"\<close> (another string, or
  null) fails with \<^verbatim>\<open>LCELModelException("Not implemented")\<close>, the spec's
  UnsupportedProviderError, in the world it started in; and when the openai builder
  returns the reference \<^verbatim>\<open>None\<close> the resolution fails with the same exception, in the
  world the builder left.
\<close>

theorem unsupported_provider:
  assumes "from_env ext = Inr cfg" and "models cfg = Val ms" and "ms index = Val mc"
    and "py_getattr (provider mc) = Inr pv"
  shows "(pv \<noteq> Some ''openai'' \<longrightarrow>
            model ext index w = (Inl (LCELModelException ''Not implemented''), w)) \<and>
         (\<forall>w1. pv = Some ''openai'' \<and> get_openai_model ext index cfg mc w = (Inr None, w1) \<longrightarrow>
            model ext index w = (Inl (LCELModelException ''Not implemented''), w1))"
  using assms by (simp add: model_def get_model_def)

theorem unsupported_provider_witness:
  "model (example_ext\<lparr>from_env := Inr (example_config\<lparr>models :=
        Val (\<lambda>i. Val (chat_model\<lparr>provider := Val ''anthropic''\<rparr>))\<rparr>)\<rparr>)
      ''1'' empty_world = (Inl (LCELModelException ''Not implemented''), empty_world) \<and>
   get_openai_model example_ext ''1'' example_config chat_model null_handle_world
      = (Inr None, null_handle_world) \<and>
   model example_ext ''1'' null_handle_world
      = (Inl (LCELModelException ''Not implemented''), null_handle_world)"
proof -
  let ?mc = "chat_model\<lparr>provider := Val ''anthropic''\<rparr>"
  let ?cfg = "example_config\<lparr>models := Val (\<lambda>i. Val ?mc)\<rparr>"
  have a: "model (example_ext\<lparr>from_env := Inr ?cfg\<rparr>) ''1'' empty_world
             = (Inl (LCELModelException ''Not implemented''), empty_world)"
    using unsupported_provider [of "example_ext\<lparr>from_env := Inr ?cfg\<rparr>" ?cfg
        "\<lambda>i. Val ?mc" "''1''" ?mc "Some ''anthropic''" empty_world]
    by (simp add: example_ext_def example_config_def)
  have b: "get_openai_model example_ext ''1'' example_config chat_model null_handle_world
             = (Inr None, null_handle_world)"
    by (simp add: get_openai_model_def refresh_interval_def is_expired_def get_llm_def Let_def
        example_defs null_handle_world_def)
  have c: "model example_ext ''1'' null_handle_world
             = (Inl (LCELModelException ''Not implemented''), null_handle_world)"
    using unsupported_provider [of example_ext example_config
        "\<lambda>i. if i = ''1'' then Val chat_model else if i = ''3'' then Null else Absent"
        "''1''" chat_model "Some ''openai''" null_handle_world] b
    by (simp add: example_ext_def example_config_def chat_model_def)
  from a b c show ?thesis by simp
qed

section \<open>The cache-hit path\<close>

text \<open>
  When the raw token for the session key is in the environment and the session
  entry for the key is not expired, the openai builder returns the cached handle and
  leaves the world as it was; the resolution invokes the token issuer not at all and
  constructs no client; and unless the proxy chain raises, the resolution returns the
  cached handle, the world differing at most by the proxy wrapped onto that handle.
\<close>

theorem cache_hit_returns_cached:
  assumes "from_env ext = Inr cfg" and "models cfg = Val ms" and "ms index = Val mc"
    and "provider mc = Val ''openai''"
    and "refresh_interval cfg = Inr iv"
    and "environ w (uuid_from_config ext cfg mc) = Some tok"
    and "\<not> is_expired iv w (uuid_from_config ext cfg mc)"
    and "get_llm w (uuid_from_config ext cfg mc) = Some h"
  shows "get_openai_model ext index cfg mc w = (Inr (Some h), w) \<and>
         issued (snd (model ext index w)) = issued w \<and>
         length (heap (snd (model ext index w))) = length (heap w) \<and>
         (\<forall>pc. proxy_config_of mc cfg = Inr pc \<longrightarrow>
            model ext index w =
              (Inr h, (case pc of None \<Rightarrow> w | Some p \<Rightarrow> wrap_llm_with_proxy h p w)))"
proof -
  have hit: "get_openai_model ext index cfg mc w = (Inr (Some h), w)"
    using cache_hit [OF assms(5,6,7)] assms(8) by simp
  have "issued (snd (model ext index w)) = issued w"
    using model_frame(3) [OF assms(1-4)] hit by simp
  moreover have "length (heap (snd (model ext index w))) = length (heap w)"
    using model_frame(4) [OF assms(1-4)] hit by simp
  moreover have "\<forall>pc. proxy_config_of mc cfg = Inr pc \<longrightarrow>
            model ext index w =
              (Inr h, (case pc of None \<Rightarrow> w | Some p \<Rightarrow> wrap_llm_with_proxy h p w))"
    using model_of_handle [OF assms(1-4) hit] by blast
  ultimately show ?thesis using hit by blast
qed

theorem cache_hit_returns_cached_witness:
  "get_openai_model example_ext ''1'' example_config chat_model cached_world
     = (Inr (Some 0), cached_world) \<and>
   model example_ext ''1'' cached_world = (Inr 0, cached_world)"
proof -
  have "proxy_config_of chat_model example_config = Inr None"
    by (simp add: proxy_config_of_def chat_model_def example_config_def)
  then show ?thesis
    using cache_hit_returns_cached [of example_ext example_config
        "\<lambda>i. if i = ''1'' then Val chat_model else if i = ''3'' then Null else Absent"
        "''1''" chat_model "Some 3600" cached_world "''token-1''" 0]
    by (simp add: example_ext_def example_config_def chat_model_def cached_world_def
        refresh_interval_def is_expired_def get_llm_def)
qed

text \<open>
  Claim C3. The claim asks that every resolution on the cache-hit path returns the
  cached handle. A first resolution of index \<open>1\<close> with no \<^verbatim>\<open>proxy\<close> key on the model
  entry leaves the token and the client cached; ten seconds later the token is present,
  the entry is not expired and holds the handle, and the resolution raises
  \<^verbatim>\<open>UnboundLocalError\<close> from the proxy chain instead of returning it.
\<close>

theorem cache_hit_absent_proxy_raises:
  "snd (model no_proxy_ext ''1'' empty_world)\<lparr>clock := 10\<rparr> = cached_world \<and>
   environ cached_world ''session-key'' = Some ''token-1'' \<and>
   \<not> is_expired (Some 3600) cached_world ''session-key'' \<and>
   get_llm cached_world ''session-key'' = Some 0 \<and>
   model no_proxy_ext ''1'' cached_world = (Inl UnboundLocalError, cached_world)"
  by (simp add: model_defs example_defs no_proxy_ext_def cached_world_def)

text \<open>
  Claim C10. On the cache-hit path the resolution leaves the environment and the session
  map as they were, whatever its outcome.
\<close>

theorem cache_hit_frame:
  assumes "from_env ext = Inr cfg" and "models cfg = Val ms" and "ms index = Val mc"
    and "provider mc = Val ''openai''"
    and "refresh_interval cfg = Inr iv"
    and "environ w (uuid_from_config ext cfg mc) = Some tok"
    and "\<not> is_expired iv w (uuid_from_config ext cfg mc)"
  shows "environ (snd (model ext index w)) = environ w \<and>
         sessions (snd (model ext index w)) = sessions w"
  using model_frame(1,2) [OF assms(1-4)] cache_hit [OF assms(5,6,7)] by simp

theorem cache_hit_frame_witness:
  "environ (snd (model example_ext ''1'' cached_world)) = environ cached_world \<and>
   sessions (snd (model example_ext ''1'' cached_world)) = sessions cached_world"
  using cache_hit_frame [of example_ext example_config
      "\<lambda>i. if i = ''1'' then Val chat_model else if i = ''3'' then Null else Absent"
      "''1''" chat_model "Some 3600" cached_world "''token-1''"]
  by (simp add: example_ext_def example_config_def chat_model_def cached_world_def
      refresh_interval_def is_expired_def)

section \<open>The refresh path\<close>

text \<open>The builders touch the heap only.\<close>

lemma builder_frame:
  "environ (snd (get_chat_model ext tok mc w)) = environ w"
  "sessions (snd (get_chat_model ext tok mc w)) = sessions w"
  "issued (snd (get_chat_model ext tok mc w)) = issued w"
  "clock (snd (get_chat_model ext tok mc w)) = clock w"
  "environ (snd (get_azure_model ext tok mc w)) = environ w"
  "sessions (snd (get_azure_model ext tok mc w)) = sessions w"
  "issued (snd (get_azure_model ext tok mc w)) = issued w"
  "clock (snd (get_azure_model ext tok mc w)) = clock w"
  by (simp_all add: get_chat_model_def get_azure_model_def sdk_new_def
      split: sum.splits option.splits)

lemma builder_success:
  assumes "py_getattr (model_name mc) = Inr mn" and "py_getattr (api_base mc) = Inr ab"
    and "py_getattr (api_version mc) = Inr av" and "py_getattr (engine mc) = Inr en"
  shows "sdk_init ext ChatOpenAI (chat_kwargs tok mn ab av en) = None \<Longrightarrow>
           get_chat_model ext tok mc w =
             (Inr (length (heap w)),
              w\<lparr>heap := heap w @ [\<lparr>cls = ChatOpenAI, kwargs = chat_kwargs tok mn ab av en,
                                     transport = None\<rparr>]\<rparr>)"
    and "sdk_init ext AzureOpenAI (azure_kwargs tok mn ab av en) = None \<Longrightarrow>
           get_azure_model ext tok mc w =
             (Inr (length (heap w)),
              w\<lparr>heap := heap w @ [\<lparr>cls = AzureOpenAI, kwargs = azure_kwargs tok mn ab av en,
                                     transport = None\<rparr>]\<rparr>)"
  using assms by (simp_all add: get_chat_model_def get_azure_model_def sdk_new_def)

lemma new_session_simps [simp]:
  "environ (new_session k h w) = environ w"
  "issued (new_session k h w) = issued w"
  "heap (new_session k h w) = heap w"
  "get_llm (new_session k h w) k = h"
  by (simp_all add: new_session_def get_llm_def)

text \<open>
  When the raw token is absent or the entry is expired, the openai builder is the
  refresh pipeline: issue, publish, build, store.
\<close>

lemma cache_miss_unfold:
  assumes "refresh_interval cfg = Inr iv"
    and "environ w (uuid_from_config ext cfg mc) = None \<or>
         is_expired iv w (uuid_from_config ext cfg mc)"
  shows "get_openai_model ext index cfg mc w =
     (case get_token_from_env ext index of
        Inl e \<Rightarrow> (Inl e, w\<lparr>issued := issued w @ [index]\<rparr>)
      | Inr tok \<Rightarrow>
          (let w2 = w\<lparr>issued := issued w @ [index],
                      environ := (environ w)(uuid_from_config ext cfg mc \<mapsto> tok)\<rparr>
           in (case py_getattr (type mc) of
                 Inl e \<Rightarrow> (Inl e, w2)
               | Inr ty \<Rightarrow>
                   (case (if ty = Some ''chat'' then get_chat_model ext tok mc w2
                          else get_azure_model ext tok mc w2) of
                      (Inl e, w3) \<Rightarrow> (Inl e, w3)
                    | (Inr r, w3) \<Rightarrow>
                        (Inr (Some r),
                         new_session (uuid_from_config ext cfg mc) (Some r) w3)))))"
  using assms
  by (auto simp add: get_openai_model_def issue_token_def Let_def split: sum.splits)

lemma cache_miss_issued:
  assumes "refresh_interval cfg = Inr iv"
    and "environ w (uuid_from_config ext cfg mc) = None \<or>
         is_expired iv w (uuid_from_config ext cfg mc)"
  shows "issued (snd (get_openai_model ext index cfg mc w)) = issued w @ [index]"
proof (cases "get_token_from_env ext index")
  case (Inl e)
  then show ?thesis by (simp add: cache_miss_unfold [OF assms])
next
  case (Inr tok)
  show ?thesis
  proof (cases "py_getattr (type mc)")
    case (Inl e)
    with Inr show ?thesis by (simp add: cache_miss_unfold [OF assms] Let_def)
  next
    case ty: (Inr ty)
    let ?w2 = "w\<lparr>issued := issued w @ [index],
                  environ := (environ w)(uuid_from_config ext cfg mc \<mapsto> tok)\<rparr>"
    obtain res w3 where b:
      "(if ty = Some ''chat'' then get_chat_model ext tok mc ?w2
        else get_azure_model ext tok mc ?w2) = (res, w3)"
      by (cases "if ty = Some ''chat'' then get_chat_model ext tok mc ?w2
                 else get_azure_model ext tok mc ?w2") blast
    have "issued w3 = issued ?w2"
      using b builder_frame(3,7) [of ext tok mc ?w2]
      by (cases "ty = Some ''chat''") simp_all
    then show ?thesis
      using Inr ty b
      by (cases res) (simp_all add: cache_miss_unfold [OF assms] Let_def new_session_def)
  qed
qed

lemma cache_miss_published:
  assumes "refresh_interval cfg = Inr iv"
    and "environ w (uuid_from_config ext cfg mc) = None \<or>
         is_expired iv w (uuid_from_config ext cfg mc)"
    and "get_token_from_env ext index = Inr tok"
  shows "environ (snd (get_openai_model ext index cfg mc w)) =
           (environ w)(uuid_from_config ext cfg mc \<mapsto> tok)"
proof (cases "py_getattr (type mc)")
  case (Inl e)
  with assms(3) show ?thesis by (simp add: cache_miss_unfold [OF assms(1,2)] Let_def)
next
  case ty: (Inr ty)
  let ?w2 = "w\<lparr>issued := issued w @ [index],
                environ := (environ w)(uuid_from_config ext cfg mc \<mapsto> tok)\<rparr>"
  obtain res w3 where b:
    "(if ty = Some ''chat'' then get_chat_model ext tok mc ?w2
      else get_azure_model ext tok mc ?w2) = (res, w3)"
    by (cases "if ty = Some ''chat'' then get_chat_model ext tok mc ?w2
               else get_azure_model ext tok mc ?w2") blast
  have "environ w3 = environ ?w2"
    using b builder_frame(1,5) [of ext tok mc ?w2]
    by (cases "ty = Some ''chat''") simp_all
  then show ?thesis
    using assms(3) ty b
    by (cases res) (simp_all add: cache_miss_unfold [OF assms(1,2)] Let_def new_session_def)
qed

lemma cache_miss_success:
  assumes "refresh_interval cfg = Inr iv"
    and "environ w (uuid_from_config ext cfg mc) = None \<or>
         is_expired iv w (uuid_from_config ext cfg mc)"
    and "get_token_from_env ext index = Inr tok"
    and "py_getattr (type mc) = Inr ty"
    and "py_getattr (model_name mc) = Inr mn" and "py_getattr (api_base mc) = Inr ab"
    and "py_getattr (api_version mc) = Inr av" and "py_getattr (engine mc) = Inr en"
    and "sdk_init ext (if ty = Some ''chat'' then ChatOpenAI else AzureOpenAI)
           (if ty = Some ''chat'' then chat_kwargs tok mn ab av en
            else azure_kwargs tok mn ab av en) = None"
  shows "get_openai_model ext index cfg mc w =
     (Inr (Some (length (heap w))),
      w\<lparr>issued := issued w @ [index],
        environ := (environ w)(uuid_from_config ext cfg mc \<mapsto> tok),
        heap := heap w @
          [\<lparr>cls = (if ty = Some ''chat'' then ChatOpenAI else AzureOpenAI),
            kwargs = (if ty = Some ''chat'' then chat_kwargs tok mn ab av en
                      else azure_kwargs tok mn ab av en),
            transport = None\<rparr>],
        sessions := (sessions w)(uuid_from_config ext cfg mc \<mapsto>
                       \<lparr>llm = Some (length (heap w)), issued_at = clock w\<rparr>)\<rparr>)"
  using assms(3,4,9)
  by (cases "ty = Some ''chat''")
     (simp_all add: cache_miss_unfold [OF assms(1,2)] Let_def new_session_def
        builder_success [OF assms(5-8)])

text \<open>
  When the raw token for the session key is absent or the session entry is
  expired, the resolution invokes the token issuer exactly once (the log grows by this
  index, whatever happens afterwards). If the issuer returns a token, that token is in the
  environment under the session key when the resolution ends. If moreover the
  configuration fields can be read, the SDK constructor accepts the call and the proxy
  chain does not raise, the resolution returns the address of the one object it
  allocated, a handle that did not exist before, and the session map holds that handle
  under the session key with the current time.
\<close>

theorem cache_miss_refreshes:
  assumes "from_env ext = Inr cfg" and "models cfg = Val ms" and "ms index = Val mc"
    and "provider mc = Val ''openai''"
    and "refresh_interval cfg = Inr iv"
    and "environ w (uuid_from_config ext cfg mc) = None \<or>
         is_expired iv w (uuid_from_config ext cfg mc)"
  shows "issued (snd (model ext index w)) = issued w @ [index] \<and>
         (\<forall>tok. get_token_from_env ext index = Inr tok \<longrightarrow>
            environ (snd (model ext index w)) =
              (environ w)(uuid_from_config ext cfg mc \<mapsto> tok)) \<and>
         (\<forall>tok ty mn ab av en pc.
            get_token_from_env ext index = Inr tok \<and>
            py_getattr (type mc) = Inr ty \<and>
            py_getattr (model_name mc) = Inr mn \<and> py_getattr (api_base mc) = Inr ab \<and>
            py_getattr (api_version mc) = Inr av \<and> py_getattr (engine mc) = Inr en \<and>
            sdk_init ext (if ty = Some ''chat'' then ChatOpenAI else AzureOpenAI)
              (if ty = Some ''chat'' then chat_kwargs tok mn ab av en
               else azure_kwargs tok mn ab av en) = None \<and>
            proxy_config_of mc cfg = Inr pc \<longrightarrow>
              fst (model ext index w) = Inr (length (heap w)) \<and>
              length (heap (snd (model ext index w))) = Suc (length (heap w)) \<and>
              sessions (snd (model ext index w)) =
                (sessions w)(uuid_from_config ext cfg mc \<mapsto>
                   \<lparr>llm = Some (length (heap w)), issued_at = clock w\<rparr>))"
proof -
  note cfg = assms(1-4) and miss = assms(5,6)
  have a: "issued (snd (model ext index w)) = issued w @ [index]"
    using model_frame(3) [OF cfg] cache_miss_issued [OF miss] by simp
  have b: "environ (snd (model ext index w)) =
             (environ w)(uuid_from_config ext cfg mc \<mapsto> tok)"
    if "get_token_from_env ext index = Inr tok" for tok
    using model_frame(1) [OF cfg] cache_miss_published [OF miss that] by simp
  have c: "fst (model ext index w) = Inr (length (heap w)) \<and>
           length (heap (snd (model ext index w))) = Suc (length (heap w)) \<and>
           sessions (snd (model ext index w)) =
             (sessions w)(uuid_from_config ext cfg mc \<mapsto>
                \<lparr>llm = Some (length (heap w)), issued_at = clock w\<rparr>)"
    if t: "get_token_from_env ext index = Inr tok"
      and f: "py_getattr (type mc) = Inr ty"
        "py_getattr (model_name mc) = Inr mn" "py_getattr (api_base mc) = Inr ab"
        "py_getattr (api_version mc) = Inr av" "py_getattr (engine mc) = Inr en"
      and s: "sdk_init ext (if ty = Some ''chat'' then ChatOpenAI else AzureOpenAI)
              (if ty = Some ''chat'' then chat_kwargs tok mn ab av en
               else azure_kwargs tok mn ab av en) = None"
      and p: "proxy_config_of mc cfg = Inr pc"
    for tok ty mn ab av en pc
  proof -
    note built = cache_miss_success [OF miss t f s]
    have "fst (model ext index w) = Inr (length (heap w))"
      using model_of_handle [OF cfg built p] by simp
    moreover have "length (heap (snd (model ext index w))) = Suc (length (heap w))"
      using model_frame(4) [OF cfg] built by simp
    moreover have "sessions (snd (model ext index w)) =
             (sessions w)(uuid_from_config ext cfg mc \<mapsto>
                \<lparr>llm = Some (length (heap w)), issued_at = clock w\<rparr>)"
      using model_frame(2) [OF cfg] built by simp
    ultimately show ?thesis by blast
  qed
  from a b c show ?thesis by blast
qed

theorem cache_miss_refreshes_witness:
  "issued (snd (model example_ext ''1'' empty_world)) = [''1''] \<and>
   environ (snd (model example_ext ''1'' empty_world)) = [''session-key'' \<mapsto> ''token-1''] \<and>
   fst (model example_ext ''1'' empty_world) = Inr 0 \<and>
   length (heap (snd (model example_ext ''1'' empty_world))) = 1 \<and>
   sessions (snd (model example_ext ''1'' empty_world)) =
     [''session-key'' \<mapsto> \<lparr>llm = Some 0, issued_at = 0\<rparr>]"
proof -
  have p: "proxy_config_of chat_model example_config = Inr None"
    by (simp add: proxy_config_of_def chat_model_def example_config_def)
  have r: "refresh_interval example_config = Inr (Some 3600)"
    by (simp add: refresh_interval_def example_config_def)
  show ?thesis
    using cache_miss_refreshes [of example_ext example_config
        "\<lambda>i. if i = ''1'' then Val chat_model else if i = ''3'' then Null else Absent"
        "''1''" chat_model "Some 3600" empty_world] p r
    by (simp add: example_ext_def example_config_def chat_model_def empty_world_def)
qed

text \<open>
  Claim C4. The claim asks that every resolution on the refresh path returns the
  freshly built handle. With no \<^verbatim>\<open>proxy\<close> key on the model entry and the cached entry
  expired, the issuer is invoked once more, a second client is built and stored under the
  session key, and the resolution raises \<^verbatim>\<open>UnboundLocalError\<close> from the proxy chain
  instead of returning it.
\<close>

theorem cache_miss_absent_proxy_raises:
  "is_expired (Some 3600) (cached_world\<lparr>clock := 3601\<rparr>) ''session-key'' \<and>
   fst (model no_proxy_ext ''1'' (cached_world\<lparr>clock := 3601\<rparr>)) = Inl UnboundLocalError \<and>
   issued (snd (model no_proxy_ext ''1'' (cached_world\<lparr>clock := 3601\<rparr>))) = [''1'', ''1''] \<and>
   length (heap (snd (model no_proxy_ext ''1'' (cached_world\<lparr>clock := 3601\<rparr>)))) = 2 \<and>
   get_llm (snd (model no_proxy_ext ''1'' (cached_world\<lparr>clock := 3601\<rparr>))) ''session-key''
     = Some 1"
  by (simp add: model_defs example_defs no_proxy_ext_def cached_world_def)

text \<open>
  Claim C8. On the refresh path the client is built by \<^verbatim>\<open>ChatOpenAI\<close> when the type is
  \<^verbatim>\<open>"chat"\<close> and by \<^verbatim>\<open>AzureOpenAI\<close> otherwise. Either call receives the model name,
  the API base and the token, and the dictionary \<^verbatim>\<open>model_kwargs\<close> with the engine, the
  API version and the fixed entry \<^verbatim>\<open>"api_type": "azure"\<close>; the completion builder
  passes the API version as \<^verbatim>\<open>openai_api_version\<close> as well.
\<close>

theorem refresh_builds_client:
  assumes "refresh_interval cfg = Inr iv"
    and "environ w (uuid_from_config ext cfg mc) = None \<or>
         is_expired iv w (uuid_from_config ext cfg mc)"
    and "get_token_from_env ext index = Inr tok"
    and "py_getattr (type mc) = Inr ty"
    and "py_getattr (model_name mc) = Inr mn" and "py_getattr (api_base mc) = Inr ab"
    and "py_getattr (api_version mc) = Inr av" and "py_getattr (engine mc) = Inr en"
    and "sdk_init ext (if ty = Some ''chat'' then ChatOpenAI else AzureOpenAI)
           (if ty = Some ''chat'' then chat_kwargs tok mn ab av en
            else azure_kwargs tok mn ab av en) = None"
  shows "fst (get_openai_model ext index cfg mc w) = Inr (Some (length (heap w))) \<and>
         (let c = heap (snd (get_openai_model ext index cfg mc w)) ! length (heap w) in
            cls c = (if ty = Some ''chat'' then ChatOpenAI else AzureOpenAI) \<and>
            map_of (kwargs c) ''model'' = Some (pystr mn) \<and>
            map_of (kwargs c) ''openai_api_key'' = Some (PStr tok) \<and>
            map_of (kwargs c) ''openai_api_base'' = Some (pystr ab) \<and>
            map_of (kwargs c) ''openai_api_version'' =
              (if ty = Some ''chat'' then None else Some (pystr av)) \<and>
            map_of (kwargs c) ''model_kwargs'' =
              Some (PDict [(''engine'', pystr en), (''api_version'', pystr av),
                           (''api_type'', PStr ''azure'')]))"
  by (simp add: cache_miss_success [OF assms] Let_def chat_kwargs_def azure_kwargs_def
      model_kwargs_def)

theorem refresh_builds_client_witness:
  "fst (get_openai_model example_ext ''1'' example_config chat_model empty_world) = Inr (Some 0) \<and>
   cls (heap (snd (get_openai_model example_ext ''1'' example_config chat_model empty_world)) ! 0)
     = ChatOpenAI \<and>
   cls (heap (snd (get_openai_model example_ext ''1'' example_config azure_model empty_world)) ! 0)
     = AzureOpenAI \<and>
   map_of (kwargs (heap (snd (get_openai_model example_ext ''1'' example_config azure_model
     empty_world)) ! 0)) ''model_kwargs''
     = Some (PDict [(''engine'', PStr ''gpt-35''), (''api_version'', PStr ''2023-05-15''),
                    (''api_type'', PStr ''azure'')])"
proof -
  have r: "refresh_interval example_config = Inr (Some 3600)"
    by (simp add: refresh_interval_def example_config_def)
  have m: "environ empty_world (uuid_from_config example_ext example_config mc) = None \<or>
           is_expired (Some 3600) empty_world (uuid_from_config example_ext example_config mc)"
    for mc
    by (simp add: empty_world_def)
  have t: "get_token_from_env example_ext ''1'' = Inr ''token-1''"
    by (simp add: example_ext_def)
  have chat: "fst (get_openai_model example_ext ''1'' example_config chat_model empty_world)
                = Inr (Some 0) \<and>
              cls (heap (snd (get_openai_model example_ext ''1'' example_config chat_model
                empty_world)) ! 0) = ChatOpenAI"
    using refresh_builds_client [OF r m t, of chat_model "Some ''chat''" "Some ''gpt-35-turbo''"
        "Some ''https://llm.example.com''" "Some ''2023-05-15''" "Some ''gpt-35''"]
    by (simp add: chat_model_def example_ext_def empty_world_def Let_def)
  have azure: "cls (heap (snd (get_openai_model example_ext ''1'' example_config azure_model
                 empty_world)) ! 0) = AzureOpenAI \<and>
               map_of (kwargs (heap (snd (get_openai_model example_ext ''1'' example_config
                 azure_model empty_world)) ! 0)) ''model_kwargs''
               = Some (PDict [(''engine'', PStr ''gpt-35''), (''api_version'', PStr ''2023-05-15''),
                    (''api_type'', PStr ''azure'')])"
    using refresh_builds_client [OF r m t, of azure_model "Some ''completion''"
        "Some ''gpt-35-turbo''" "Some ''https://llm.example.com''" "Some ''2023-05-15''"
        "Some ''gpt-35''"]
    by (simp add: azure_model_def chat_model_def example_ext_def empty_world_def Let_def pystr_def)
  from chat azure show ?thesis by simp
qed

section \<open>The proxy chain\<close>

text \<open>A resolution that returns a handle went through the openai builder and the proxy
  chain.\<close>

lemma model_success_dispatch:
  assumes "from_env ext = Inr cfg" and "models cfg = Val ms" and "ms index = Val mc"
    and "model ext index w = (Inr h, w')"
  shows "provider mc = Val ''openai''"
    and "\<exists>w1 pc. get_openai_model ext index cfg mc w = (Inr (Some h), w1) \<and>
           proxy_config_of mc cfg = Inr pc \<and>
           w' = (case pc of None \<Rightarrow> w1 | Some p \<Rightarrow> wrap_llm_with_proxy h p w1)"
proof -
  show prov: "provider mc = Val ''openai''"
    using assms
    by (cases "provider mc")
       (auto simp add: model_def get_model_def split: if_splits)
  show "\<exists>w1 pc. get_openai_model ext index cfg mc w = (Inr (Some h), w1) \<and>
           proxy_config_of mc cfg = Inr pc \<and>
           w' = (case pc of None \<Rightarrow> w1 | Some p \<Rightarrow> wrap_llm_with_proxy h p w1)"
    using assms(4)
    by (auto simp add: model_dispatch [OF assms(1-3) prov]
        split: prod.splits sum.splits option.splits)
qed

lemma model_proxy_wins:
  assumes "proxy mc = Val p"
  shows "proxy_config_of mc cfg = Inr (Some p)"
  using assms by (simp add: proxy_config_of_def)

lemma global_proxy_fallback:
  assumes "proxy mc = Null"
  shows "proxy_config_of mc cfg = Inr (case cfg_proxy cfg of Val g \<Rightarrow> Some g | _ \<Rightarrow> None)"
  using assms by (simp add: proxy_config_of_def split: attr.splits)

lemma proxy_chain_result:
  assumes "proxy mc \<noteq> Absent"
  shows "\<exists>pc. proxy_config_of mc cfg = Inr pc"
  using assms by (cases "proxy mc"; cases "cfg_proxy cfg") (simp_all add: proxy_config_of_def)

lemma absent_model_proxy_unbound:
  assumes "proxy mc = Absent"
  shows "proxy_config_of mc cfg = Inl UnboundLocalError"
  using assms by (simp add: proxy_config_of_def)

lemma wrap_transport:
  assumes "h < length (heap w)"
  shows "transport (heap (wrap_llm_with_proxy h p w) ! h) = Some p"
  using assms by (simp add: wrap_llm_with_proxy_def)

text \<open>
  Claim C5. When the model entry declares a proxy, the proxy chain yields it whatever
  the global setting is, and a resolution that returns a handle has wrapped that handle
  with the model-scoped proxy as its last effect.
\<close>

theorem model_proxy_precedence:
  assumes "from_env ext = Inr cfg" and "models cfg = Val ms" and "ms index = Val mc"
    and "proxy mc = Val p"
    and "model ext index w = (Inr h, w')"
  shows "(\<forall>g. proxy_config_of mc (cfg\<lparr>cfg_proxy := g\<rparr>) = Inr (Some p)) \<and>
         (\<exists>w1. get_openai_model ext index cfg mc w = (Inr (Some h), w1) \<and>
               w' = wrap_llm_with_proxy h p w1) \<and>
         (h < length (heap w') \<longrightarrow> transport (heap w' ! h) = Some p)"
proof -
  have "proxy_config_of mc cfg = Inr (Some p)"
    using assms(4) by (rule model_proxy_wins)
  with model_success_dispatch(2) [OF assms(1,2,3,5)]
  obtain w1 where w1: "get_openai_model ext index cfg mc w = (Inr (Some h), w1)"
    "w' = wrap_llm_with_proxy h p w1"
    by auto
  have "h < length (heap w') \<longrightarrow> transport (heap w' ! h) = Some p"
    using w1(2) wrap_transport [of h w1 p] by simp
  with w1 model_proxy_wins [OF assms(4)] show ?thesis by blast
qed

theorem model_proxy_precedence_witness:
  "fst (model proxied_ext ''1'' empty_world) = Inr 0 \<and>
   cfg_proxy proxied_config = Val ''http://global-proxy:3128'' \<and>
   transport (heap (snd (model proxied_ext ''1'' empty_world)) ! 0) = Some ''http://model-proxy:8080''"
proof -
  have res: "fst (model proxied_ext ''1'' empty_world) = Inr 0"
    by (simp add: model_defs example_defs proxied_ext_def proxied_config_def proxied_model_def)
  then have run: "model proxied_ext ''1'' empty_world =
               (Inr 0, snd (model proxied_ext ''1'' empty_world))"
    by (simp add: prod_eq_iff)
  have len: "0 < length (heap (snd (model proxied_ext ''1'' empty_world)))"
    by (simp add: model_defs example_defs proxied_ext_def proxied_config_def proxied_model_def)
  have "transport (heap (snd (model proxied_ext ''1'' empty_world)) ! 0)
          = Some ''http://model-proxy:8080''"
    using model_proxy_precedence [of proxied_ext proxied_config "\<lambda>i. Val proxied_model" "''1''"
        proxied_model "''http://model-proxy:8080''" empty_world 0
        "snd (model proxied_ext ''1'' empty_world)"] run len
    by (simp add: proxied_ext_def proxied_config_def proxied_model_def example_ext_def)
  with res show ?thesis by (simp add: proxied_config_def)
qed

section \<open>The session key across resolutions\<close>

text \<open>A handle returned by the openai builder is in the session map under the session
  key, and a token is in the environment under the same key.\<close>

lemma openai_model_post:
  assumes "get_openai_model ext index cfg mc w = (Inr (Some h), w1)"
  shows "environ w1 (uuid_from_config ext cfg mc) \<noteq> None \<and>
         get_llm w1 (uuid_from_config ext cfg mc) = Some h"
proof -
  let ?k = "uuid_from_config ext cfg mc"
  obtain iv where iv: "refresh_interval cfg = Inr iv"
    using assms by (cases "refresh_interval cfg") (simp_all add: get_openai_model_def Let_def)
  show ?thesis
  proof (cases "environ w ?k = None \<or> is_expired iv w ?k")
    case False
    then obtain tok where tok: "environ w ?k = Some tok" and fresh: "\<not> is_expired iv w ?k"
      by auto
    from cache_hit [OF iv tok fresh, of index] assms tok show ?thesis by auto
  next
    case True
    note unf = cache_miss_unfold [OF iv True, of index]
    obtain tok where tok: "get_token_from_env ext index = Inr tok"
      using assms unf by (cases "get_token_from_env ext index") simp_all
    obtain ty where ty: "py_getattr (type mc) = Inr ty"
      using assms unf tok by (cases "py_getattr (type mc)") (simp_all add: Let_def)
    let ?w2 = "w\<lparr>issued := issued w @ [index], environ := (environ w)(?k \<mapsto> tok)\<rparr>"
    obtain res w3 where b:
      "(if ty = Some ''chat'' then get_chat_model ext tok mc ?w2
        else get_azure_model ext tok mc ?w2) = (res, w3)"
      by (cases "if ty = Some ''chat'' then get_chat_model ext tok mc ?w2
                 else get_azure_model ext tok mc ?w2") blast
    have env: "environ w3 = environ ?w2"
      using b builder_frame(1,5) [of ext tok mc ?w2]
      by (cases "ty = Some ''chat''") simp_all
    from assms unf tok ty b have "res = Inr h \<and> w1 = new_session ?k (Some h) w3"
      by (cases res) (simp_all add: Let_def)
    with env show ?thesis by simp
  qed
qed

text \<open>
  After a resolution that returned a handle, the token and the handle are stored under
  the session key: as long as the entry is not expired, a repeated resolution of the same
  index finds them, returns the same handle and neither invokes the issuer nor writes the
  environment.
\<close>

theorem repeated_resolution_reuses_key:
  assumes "from_env ext = Inr cfg" and "models cfg = Val ms" and "ms index = Val mc"
    and "refresh_interval cfg = Inr iv"
    and "model ext index w = (Inr h, w1)"
    and "\<not> is_expired iv (w1\<lparr>clock := t\<rparr>) (uuid_from_config ext cfg mc)"
  shows "environ w1 (uuid_from_config ext cfg mc) \<noteq> None \<and>
         get_llm w1 (uuid_from_config ext cfg mc) = Some h \<and>
         fst (model ext index (w1\<lparr>clock := t\<rparr>)) = Inr h \<and>
         issued (snd (model ext index (w1\<lparr>clock := t\<rparr>))) = issued w1 \<and>
         environ (snd (model ext index (w1\<lparr>clock := t\<rparr>))) = environ w1"
proof -
  let ?k = "uuid_from_config ext cfg mc"
  let ?w2 = "w1\<lparr>clock := t\<rparr>"
  note prov = model_success_dispatch(1) [OF assms(1,2,3,5)]
  from model_success_dispatch(2) [OF assms(1,2,3,5)]
  obtain w0 pc where first: "get_openai_model ext index cfg mc w = (Inr (Some h), w0)"
    and pc: "proxy_config_of mc cfg = Inr pc"
    and w1: "w1 = (case pc of None \<Rightarrow> w0 | Some p \<Rightarrow> wrap_llm_with_proxy h p w0)"
    by blast
  have stores: "environ w1 = environ w0" "sessions w1 = sessions w0"
    using w1 by (simp_all split: option.splits)
  have post: "environ w1 ?k \<noteq> None" "get_llm w1 ?k = Some h"
    using openai_model_post [OF first] stores by (simp_all add: get_llm_def)
  then obtain tok where tok: "environ ?w2 ?k = Some tok" by auto
  have llm2: "get_llm ?w2 ?k = Some h"
    using post(2) by (simp add: get_llm_def)
  have hit: "get_openai_model ext index cfg mc ?w2 = (Inr (Some h), ?w2)"
    using cache_hit [OF assms(4) tok assms(6)] llm2 by simp
  have "fst (model ext index ?w2) = Inr h"
    using model_of_handle [OF assms(1,2,3) prov hit pc] by simp
  moreover have "issued (snd (model ext index ?w2)) = issued w1"
    using model_frame(3) [OF assms(1,2,3) prov] hit by simp
  moreover have "environ (snd (model ext index ?w2)) = environ w1"
    using model_frame(1) [OF assms(1,2,3) prov] hit by simp
  ultimately show ?thesis using post by blast
qed

theorem repeated_resolution_reuses_key_witness:
  "fst (model example_ext ''1'' empty_world) = Inr 0 \<and>
   environ (snd (model example_ext ''1'' empty_world)) ''session-key'' = Some ''token-1'' \<and>
   fst (model example_ext ''1'' (snd (model example_ext ''1'' empty_world)\<lparr>clock := 10\<rparr>)) = Inr 0 \<and>
   issued (snd (model example_ext ''1'' (snd (model example_ext ''1'' empty_world)\<lparr>clock := 10\<rparr>)))
     = [''1'']"
proof -
  let ?w1 = "snd (model example_ext ''1'' empty_world)"
  have res: "fst (model example_ext ''1'' empty_world) = Inr 0"
    by (simp add: model_defs example_defs)
  then have run: "model example_ext ''1'' empty_world = (Inr 0, ?w1)"
    by (simp add: prod_eq_iff)
  have w1: "?w1 = cached_world\<lparr>clock := 0\<rparr>"
    by (simp add: model_defs example_defs cached_world_def)
  have r: "refresh_interval example_config = Inr (Some 3600)"
    by (simp add: refresh_interval_def example_config_def)
  have fresh: "\<not> is_expired (Some 3600) (?w1\<lparr>clock := 10\<rparr>)
                 (uuid_from_config example_ext example_config chat_model)"
    unfolding w1 by (simp add: is_expired_def cached_world_def example_ext_def)
  have "environ ?w1 ''session-key'' \<noteq> None \<and>
        fst (model example_ext ''1'' (?w1\<lparr>clock := 10\<rparr>)) = Inr 0 \<and>
        issued (snd (model example_ext ''1'' (?w1\<lparr>clock := 10\<rparr>))) = issued ?w1"
    using repeated_resolution_reuses_key [of example_ext example_config
        "\<lambda>i. if i = ''1'' then Val chat_model else if i = ''3'' then Null else Absent"
        "''1''" chat_model "Some 3600" empty_world 0 ?w1 10, OF _ _ _ r run fresh]
    by (simp add: example_ext_def example_config_def)
  then show ?thesis using res unfolding w1 by (simp add: cached_world_def)
qed



end
